theory Spec2Isabelle
  imports Main "HOL-Library.Word"
begin

section \<open>Data model of contrib/pg\_hacker\_helper\_tools.c\<close>

text \<open>
  The module formats a PostgreSQL expression tree (\<open>Expr *\<close>) against a range table
  (\<open>List *\<close> of \<open>RangeTblEntry *\<close>) into a \<open>StringInfo\<close> buffer. The node structs
  come from PostgreSQL's headers; only the fields the formatter reads are kept.
  \<open>Oid\<close> is an unsigned integer used as a catalog key only, \<open>Datum\<close> an opaque
  machine word handed to the type's output function, and \<open>AttrNumber\<close> a 16-bit
  integer that the formatter only hands on to \<open>get_rte_attribute_name\<close>.
\<close>

type_synonym Oid = nat
type_synonym Datum = nat
type_synonym AttrNumber = int

text \<open>
  Modelled from the spec: the node structs, declared in PostgreSQL's
  \<open>nodes/primnodes.h\<close>. The specification gives a column reference with an integer
  relation index and an attribute number, a constant with a null flag, a type id and
  an opaque value, an operator application and a function call with an id and an
  ordered sequence of nodes each, and a catch-all kind. The constructors carry the
  code's names: \<open>Var\<close> holds \<open>varno\<close> and \<open>varattno\<close>; \<open>Const\<close> holds \<open>constisnull\<close>,
  \<open>consttype\<close> and \<open>constvalue\<close>; \<open>OpExpr\<close> holds \<open>opno\<close> and \<open>args\<close>; \<open>FuncExpr\<close>
  holds \<open>funcid\<close> and \<open>args\<close>; every other node tag is \<open>Other\<close>. \<open>varno\<close> is kept as
  the 32 bits of the field, since the code reads it both in its declared type and
  through a cast to \<open>int\<close>. The elements of an \<open>args\<close> list are nodes; a \<open>NULL\<close> pointer
  to a node is \<open>None\<close> of \<open>expr option\<close>.
\<close>

datatype expr =
    Var "32 word" AttrNumber
  | Const bool Oid Datum
  | OpExpr Oid "expr list"
  | FuncExpr Oid "expr list"
  | Other

text \<open>
  Modelled from the spec: a range table entry, declared in PostgreSQL's
  \<open>nodes/parsenodes.h\<close>. The specification gives a relation descriptor a display
  alias and attribute names by position; the code reads \<open>rte->eref->aliasname\<close> and
  hands the entry to \<open>get_rte_attribute_name\<close>.
\<close>

record Alias =
  aliasname :: string
  colnames :: "string list"

record RangeTblEntry =
  eref :: Alias

text \<open>
  What stops a call before it returns: reading through a \<open>NULL\<close> node pointer
  (\<open>IsA(expr, Var)\<close> reads \<open>expr->type\<close>), \<open>list_nth\<close> past the end of a list, and an
  error reported by a backend routine with \<open>ereport(ERROR)\<close>, which leaves the
  formatter by a non-local exit (the formatter has no \<open>PG_TRY\<close> block).
\<close>

datatype pg_fault = NullPointerDereference | ListIndexOutOfRange | BackendError string

text \<open>
  The PostgreSQL backend the module is loaded into. \<open>nodes/primnodes.h\<close> declares the
  field \<open>varno\<close> and the special range-table indexes \<open>INNER_VAR\<close>, \<open>OUTER_VAR\<close>,
  \<open>INDEX_VAR\<close>, and both differ between server versions: \<open>varno\<close> is an \<open>int\<close> and the
  slots are \<open>-1\<close>, \<open>-2\<close>, \<open>-3\<close> from version 15 on; before, \<open>varno\<close> is an \<open>Index\<close> (an
  \<open>unsigned int\<close>) and the slots are 65000, 65001, 65002. \<open>varno_signed\<close> says which
  declaration is in force, and the slots are given as the 32 bits a \<open>varno\<close> is
  compared with. The lookups are backend routines:
  \<open>get_opname\<close> and \<open>get_func_name\<close> return \<open>NULL\<close> (\<open>None\<close>) for an id without an
  entry; \<open>get_rte_attribute_name\<close>, \<open>getTypeOutputInfo\<close> and
  \<open>OidOutputFunctionCall\<close> either return or report an error. None of them is
  defined in this module, so all are parameters.
\<close>

record backend =
  varno_signed :: bool
  INNER_VAR :: "32 word"
  OUTER_VAR :: "32 word"
  INDEX_VAR :: "32 word"
  get_rte_attribute_name :: "RangeTblEntry \<Rightarrow> AttrNumber \<Rightarrow> pg_fault + string"
  getTypeOutputInfo :: "Oid \<Rightarrow> pg_fault + (Oid \<times> bool)"
  OidOutputFunctionCall :: "Oid \<Rightarrow> Datum \<Rightarrow> pg_fault + string"
  get_opname :: "Oid \<Rightarrow> string option"
  get_func_name :: "Oid \<Rightarrow> string option"

section \<open>List and node helpers used by the formatter\<close>

text \<open>
  Modelled from the spec: \<open>list_length\<close>, \<open>list_nth\<close> and \<open>rt_fetch\<close>, of PostgreSQL's
  \<open>nodes/pg_list.h\<close> and \<open>parser/parsetree.h\<close>; the specification indexes the symbol
  table from 1. \<open>list_length\<close> is an \<open>int\<close>, \<open>list_nth(list, n)\<close> takes an \<open>int\<close> and
  has an element for \<open>0 \<le> n < list_length(list)\<close> only, and \<open>rt_fetch(i, rtable)\<close> is
  \<open>list_nth(rtable, i - 1)\<close>, the subtraction done on the 32 bits of \<open>i\<close> and the
  result read as an \<open>int\<close>. An index outside the list has no element here rather than
  an unspecified one. (A \<open>List\<close> keeps its length in an \<open>int\<close>, so the lists the code
  meets have fewer than \<open>2^31\<close> cells.)
\<close>

definition list_length :: "'a list \<Rightarrow> int" where
  "list_length l = int (length l)"

definition list_nth :: "'a list \<Rightarrow> int \<Rightarrow> 'a option" where
  "list_nth l n = (if 0 \<le> n \<and> n < list_length l then Some (l ! nat n) else None)"

definition rt_fetch :: "32 word \<Rightarrow> RangeTblEntry list \<Rightarrow> RangeTblEntry option" where
  "rt_fetch rangetable_index rangetable = list_nth rangetable (sint (rangetable_index - 1))"

text \<open>
  Modelled from the spec: \<open>get_leftop\<close> and \<open>get_rightop\<close>, inline functions of
  PostgreSQL's \<open>nodes/nodeFuncs.h\<close>. The specification has the infix form format the
  first operand on the left and the second on the right, and the prefix form format
  the only operand. \<open>get_leftop\<close> returns the first element of an operator clause's
  \<open>args\<close>, or \<open>NULL\<close> when the list is empty; \<open>get_rightop\<close> returns the second
  element, or \<open>NULL\<close> when there are fewer than two.
\<close>

fun get_leftop :: "expr \<Rightarrow> expr option" where
  "get_leftop (OpExpr opno args) = (case args of [] \<Rightarrow> None | a # _ \<Rightarrow> Some a)"
| "get_leftop _ = None"

fun get_rightop :: "expr \<Rightarrow> expr option" where
  "get_rightop (OpExpr opno args) = (case args of a # b # _ \<Rightarrow> Some b | _ \<Rightarrow> None)"
| "get_rightop _ = None"

section \<open>The formatter\<close>

text \<open>
  \<open>format_expr_inner(str, expr, rtable)\<close> appends to the buffer \<open>str\<close>; the model takes
  the buffer's contents and returns the new contents. In the guard
  \<open>var->varno > 0 && (int) var->varno <= list_length(rtable)\<close> the first comparison is
  made in the type of the field, signed or unsigned, and the second on the field cast
  to \<open>int\<close>, which reads its 32 bits as a signed number. \<open>format_args\<close> is the
  \<open>foreach(l, e->args)\<close> loop of the \<open>FuncExpr\<close> branch: after each argument a comma is
  appended when \<open>lnext(e->args, l)\<close> is not \<open>NULL\<close>, that is, when more cells follow.
\<close>

function format_expr_inner ::
    "backend \<Rightarrow> string \<Rightarrow> expr option \<Rightarrow> RangeTblEntry list \<Rightarrow> pg_fault + string"
  and format_args ::
    "backend \<Rightarrow> string \<Rightarrow> expr list \<Rightarrow> RangeTblEntry list \<Rightarrow> pg_fault + string"
where
  "format_expr_inner env str None rtable = Inl NullPointerDereference"
| "format_expr_inner env str (Some (Var varno varattno)) rtable =
     (if varno = INNER_VAR env then Inr (str @ ''INNER'' @ ''.'' @ ''?'')
      else if varno = OUTER_VAR env then Inr (str @ ''OUTER'' @ ''.'' @ ''?'')
      else if varno = INDEX_VAR env then Inr (str @ ''INDEX'' @ ''.'' @ ''?'')
      else if \<not> ((if varno_signed env then sint varno > 0 else uint varno > 0)
                  \<and> sint varno \<le> list_length rtable) then Inr str
      else (case rt_fetch varno rtable of
              None \<Rightarrow> Inl ListIndexOutOfRange
            | Some rte \<Rightarrow>
                (case get_rte_attribute_name env rte varattno of
                   Inl err \<Rightarrow> Inl err
                 | Inr attname \<Rightarrow> Inr (str @ aliasname (eref rte) @ ''.'' @ attname))))"
| "format_expr_inner env str (Some (Const constisnull consttype constvalue)) rtable =
     (if constisnull then Inr (str @ ''NULL'')
      else (case getTypeOutputInfo env consttype of
              Inl err \<Rightarrow> Inl err
            | Inr (typoutput, typIsVarlena) \<Rightarrow>
                (case OidOutputFunctionCall env typoutput constvalue of
                   Inl err \<Rightarrow> Inl err
                 | Inr outputstr \<Rightarrow> Inr (str @ outputstr))))"
| "format_expr_inner env str (Some (OpExpr opno args)) rtable =
     (let opname = get_opname env opno in
      if list_length args > 1 then
        (case format_expr_inner env str (get_leftop (OpExpr opno args)) rtable of
           Inl err \<Rightarrow> Inl err
         | Inr str1 \<Rightarrow>
             format_expr_inner env
               (str1 @ '' '' @ (case opname of Some n \<Rightarrow> n | None \<Rightarrow> ''(invalid operator)'') @ '' '')
               (get_rightop (OpExpr opno args)) rtable)
      else
        format_expr_inner env
          (str @ (case opname of Some n \<Rightarrow> n | None \<Rightarrow> ''(invalid operator)'') @ '' '')
          (get_leftop (OpExpr opno args)) rtable)"
| "format_expr_inner env str (Some (FuncExpr funcid args)) rtable =
     (let funcname = get_func_name env funcid in
      case format_args env
             (str @ (case funcname of Some n \<Rightarrow> n | None \<Rightarrow> ''(invalid function)'') @ ''('')
             args rtable of
        Inl err \<Rightarrow> Inl err
      | Inr str1 \<Rightarrow> Inr (str1 @ '')''))"
| "format_expr_inner env str (Some Other) rtable = Inr (str @ ''unknown expr'')"
| "format_args env str [] rtable = Inr str"
| "format_args env str (a # l) rtable =
     (case format_expr_inner env str (Some a) rtable of
        Inl err \<Rightarrow> Inl err
      | Inr str1 \<Rightarrow> format_args env (if l \<noteq> [] then str1 @ '','' else str1) l rtable)"
  by pat_completeness auto

termination
  by (relation "measure (\<lambda>x. case x of
          Inl (_, _, e, _) \<Rightarrow> (case e of None \<Rightarrow> 0 | Some e' \<Rightarrow> 2 * size e')
        | Inr (_, _, l, _) \<Rightarrow> 2 * size_list size l + 1)")
     (auto split: list.splits)

text \<open>
  \<open>pg_hacker_helper_format_expr(expr, rtable)\<close>: \<open>NULL\<close> for a \<open>NULL\<close> expression,
  otherwise the contents of a fresh buffer after \<open>format_expr_inner\<close>.
\<close>

definition pg_hacker_helper_format_expr ::
    "backend \<Rightarrow> expr option \<Rightarrow> RangeTblEntry list \<Rightarrow> pg_fault + string option" where
  "pg_hacker_helper_format_expr env expr rtable =
     (case expr of
        None \<Rightarrow> Inr None
      | Some e \<Rightarrow>
          (case format_expr_inner env [] (Some e) rtable of
             Inl err \<Rightarrow> Inl err
           | Inr str \<Rightarrow> Inr (Some str)))"

definition pg_hacker_helper_version :: int where
  "pg_hacker_helper_version = 1"

section \<open>Auxiliary notions for the statements\<close>

text \<open>
  The argument texts of a function call as the specification words them: joined by a
  bare comma, nothing before the first and nothing after the last.
\<close>

fun comma_separated :: "string list \<Rightarrow> string" where
  "comma_separated [] = []"
| "comma_separated [t] = t"
| "comma_separated (t # u # ts) = t @ '','' @ comma_separated (u # ts)"

text \<open>
  \<open>lookups_succeed env rtable e\<close>: every lookup that formatting \<open>e\<close> performs
  returns, and every node pointer it follows is not \<open>NULL\<close>. A \<open>Var\<close> needs its range
  table entry and its attribute name only when it is no special slot and passes the
  guard; a \<open>Const\<close> needs its type's output function only when it is not null; an \<open>OpExpr\<close> needs a
  first operand, and its second one when it has more than one; a \<open>FuncExpr\<close> needs
  all its arguments. Operator and function names are never needed.
\<close>

fun lookups_succeed :: "backend \<Rightarrow> RangeTblEntry list \<Rightarrow> expr \<Rightarrow> bool" where
  "lookups_succeed env rtable (Var varno varattno) =
     (varno = INNER_VAR env \<or> varno = OUTER_VAR env \<or> varno = INDEX_VAR env
      \<or> \<not> ((if varno_signed env then sint varno > 0 else uint varno > 0)
             \<and> sint varno \<le> list_length rtable)
      \<or> (case rt_fetch varno rtable of
            None \<Rightarrow> False
          | Some rte \<Rightarrow> \<not> isl (get_rte_attribute_name env rte varattno)))"
| "lookups_succeed env rtable (Const constisnull consttype constvalue) =
     (constisnull \<or>
      (case getTypeOutputInfo env consttype of
         Inl err \<Rightarrow> False
       | Inr (typoutput, typIsVarlena) \<Rightarrow> \<not> isl (OidOutputFunctionCall env typoutput constvalue)))"
| "lookups_succeed env rtable (OpExpr opno args) =
     (case args of
        [] \<Rightarrow> False
      | [a] \<Rightarrow> lookups_succeed env rtable a
      | a # b # _ \<Rightarrow> lookups_succeed env rtable a \<and> lookups_succeed env rtable b)"
| "lookups_succeed env rtable (FuncExpr funcid args) = list_all (lookups_succeed env rtable) args"
| "lookups_succeed env rtable Other = True"

text \<open>
  Two small backends and a range table to evaluate the formatter on. They behave as
  a PostgreSQL server does on these inputs. \<open>sample_backend\<close> has a signed \<open>varno\<close> and
  the special slots \<open>-1\<close>, \<open>-2\<close>, \<open>-3\<close>; \<open>sample_backend_index\<close> is the same backend
  with an unsigned \<open>varno\<close> and the slots 65000, 65001, 65002. In both,
  \<open>get_rte_attribute_name\<close> gives \<open>*\<close> for attribute 0, the entry's column name for a
  number within its columns, and otherwise reports
  \<open>invalid attnum ... for rangetable entry ...\<close>; \<open>getTypeOutputInfo\<close> knows the type
  \<open>bool\<close> (id 16, output function 1242, which prints \<open>t\<close> or \<open>f\<close>) and reports
  \<open>cache lookup failed for type ...\<close> for an id without a type; the operators are
  \<open>=\<close> (id 91) and \<open>+\<close> (id 551), the function is \<open>abs\<close> (id 1397).
\<close>

definition sample_backend :: backend where
  "sample_backend =
     \<lparr>varno_signed = True, INNER_VAR = - 1, OUTER_VAR = - 2, INDEX_VAR = - 3,
      get_rte_attribute_name = (\<lambda>rte attnum.
         if attnum = 0 then Inr ''*''
         else if 0 < attnum \<and> attnum \<le> int (length (colnames (eref rte)))
         then Inr (colnames (eref rte) ! nat (attnum - 1))
         else Inl (BackendError ''invalid attnum for rangetable entry'')),
      getTypeOutputInfo = (\<lambda>type.
         if type = 16 then Inr (1242, False)
         else Inl (BackendError ''cache lookup failed for type'')),
      OidOutputFunctionCall = (\<lambda>functionId val.
         if functionId = 1242 then Inr (if val = 0 then ''f'' else ''t'')
         else Inl (BackendError ''cache lookup failed for function'')),
      get_opname = (\<lambda>opno.
         if opno = 91 then Some ''='' else if opno = 551 then Some ''+'' else None),
      get_func_name = (\<lambda>funcid. if funcid = 1397 then Some ''abs'' else None)\<rparr>"

definition sample_backend_index :: backend where
  "sample_backend_index =
     sample_backend\<lparr>varno_signed := False,
                    INNER_VAR := 65000, OUTER_VAR := 65001, INDEX_VAR := 65002\<rparr>"

definition sample_rtable :: "RangeTblEntry list" where
  "sample_rtable =
     [\<lparr>eref = \<lparr>aliasname = ''t'', colnames = [''a'', ''b'']\<rparr>\<rparr>,
      \<lparr>eref = \<lparr>aliasname = ''u'', colnames = [''x'']\<rparr>\<rparr>]"

section \<open>The range guard on 32 bits\<close>

text \<open>
  A \<open>varno\<close> that is positive when read as an \<open>int\<close> is positive in either
  declaration, and one less than it is the \<open>int\<close> one less; a \<open>varno\<close> that reads as the
  \<open>int\<close> zero is zero.
\<close>

lemma sint_pos_uint_pos: "0 < sint (v :: 32 word) \<Longrightarrow> 0 < uint v"
  by (metis less_le sint_0 uint_0_iff uint_ge_0)

lemma sint_zero_uint_zero: "sint (v :: 32 word) = 0 \<Longrightarrow> uint v = 0"
  by (metis signed_word_eqI sint_0 uint_0_eq)

lemma sint_pred:
  assumes "0 < sint (v :: 32 word)"
  shows "sint (v - 1) = sint v - 1"
proof -
  have up: "sint v < 2 ^ 31"
    using sint_lt [of v] by simp
  have "sint (v - 1) = signed_take_bit 31 (sint v - sint (1 :: 32 word))"
    using sint_word_ariths(2) [of v 1] by simp
  also have "\<dots> = signed_take_bit 31 (sint v - 1)"
    by simp
  also have "\<dots> = sint v - 1"
    using assms up by (intro signed_take_bit_int_eq_self) simp_all
  finally show ?thesis .
qed

lemma guard_passes:
  assumes "1 \<le> sint (varno :: 32 word)" "sint varno \<le> int (length rtable)"
  shows "(if varno_signed env then sint varno > 0 else uint varno > 0)
           \<and> sint varno \<le> list_length rtable"
  using assms sint_pos_uint_pos [of varno] by (simp add: list_length_def)

lemma rt_fetch_in_range:
  assumes "1 \<le> sint (varno :: 32 word)" "sint varno \<le> int (length rtable)"
  shows "rt_fetch varno rtable = Some (rtable ! nat (sint varno - 1))"
  using assms sint_pred [of varno] by (simp add: rt_fetch_def list_nth_def list_length_def)

lemma guard_fails:
  assumes "\<not> (1 \<le> sint (varno :: 32 word) \<and> sint varno \<le> int (length rtable))"
    and "varno_signed env \<or> 0 \<le> sint varno"
  shows "\<not> ((if varno_signed env then sint varno > 0 else uint varno > 0)
             \<and> sint varno \<le> list_length rtable)"
  using assms sint_zero_uint_zero [of varno] by (auto simp: list_length_def)

text \<open>
  Where \<open>varno\<close> is unsigned, an index of \<open>2^31\<close> or more is positive, reads as a
  negative \<open>int\<close> through the cast and so passes the guard; \<open>rt_fetch\<close> then asks
  \<open>list_nth\<close> for an element the list does not have.
\<close>

lemma unsigned_varno_wraps_through_cast:
  "pg_hacker_helper_format_expr sample_backend_index (Some (Var 4294967295 1)) sample_rtable
     = Inl ListIndexOutOfRange"
  by (simp add: pg_hacker_helper_format_expr_def sample_backend_def sample_backend_index_def
        sample_rtable_def rt_fetch_def list_nth_def list_length_def)

section \<open>The buffer is only appended to\<close>

text \<open>
  Formatting into a buffer that already holds \<open>str\<close> gives \<open>str\<close> followed by what
  formatting into an empty buffer gives, and faults in the same cases. So the text a
  node emits is the result of formatting it into the empty buffer.
\<close>

lemma format_args_append_aux:
  assumes "\<And>a s. a \<in> set l \<Longrightarrow>
     format_expr_inner env s (Some a) rtable = map_sum id ((@) s) (format_expr_inner env [] (Some a) rtable)"
  shows "format_args env str l rtable = map_sum id ((@) str) (format_args env [] l rtable)"
  using assms
proof (induction l arbitrary: str)
  case Nil
  show ?case by simp
next
  case (Cons a l)
  have hd: "format_expr_inner env s (Some a) rtable
              = map_sum id ((@) s) (format_expr_inner env [] (Some a) rtable)" for s
    by (rule Cons.prems) simp
  have tl: "format_args env s l rtable = map_sum id ((@) s) (format_args env [] l rtable)" for s
    by (rule Cons.IH) (rule Cons.prems, simp)
  show ?case
  proof (cases "format_expr_inner env [] (Some a) rtable")
    case (Inl err)
    then show ?thesis using hd [of str] by simp
  next
    case (Inr t)
    then have "format_expr_inner env str (Some a) rtable = Inr (str @ t)"
      using hd [of str] by simp
    then show ?thesis
      using Inr tl [of "str @ t @ '',''"] tl [of "str @ t"] tl [of "t @ '',''"] tl [of t]
      by (cases "format_args env [] l rtable") auto
  qed
qed


lemma format_expr_inner_append:
  "format_expr_inner env str (Some e) rtable
     = map_sum id ((@) str) (format_expr_inner env [] (Some e) rtable)"
proof (induction e arbitrary: str)
  case (Var varno varattno)
  show ?case by (simp split: option.splits sum.splits)
next
  case (Const constisnull consttype constvalue)
  show ?case by (simp split: option.splits sum.splits prod.splits)
next
  case (OpExpr opno args)
  define name where "name = (case get_opname env opno of Some n \<Rightarrow> n | None \<Rightarrow> ''(invalid operator)'')"
  show ?case
  proof (cases args)
    case Nil
    then show ?thesis by (simp add: list_length_def)
  next
    case (Cons a as)
    note A = this
    have ha: "format_expr_inner env s (Some a) rtable
              = map_sum id ((@) s) (format_expr_inner env [] (Some a) rtable)" for s
      by (rule OpExpr.IH) (simp add: A)
    show ?thesis
    proof (cases as)
      case Nil
      show ?thesis
        using ha [of "str @ name @ '' ''"] ha [of "name @ '' ''"]
        by (cases "format_expr_inner env [] (Some a) rtable")
           (simp_all add: A Nil name_def list_length_def)
    next
      case (Cons b bs)
      have hb: "format_expr_inner env s (Some b) rtable
              = map_sum id ((@) s) (format_expr_inner env [] (Some b) rtable)" for s
        by (rule OpExpr.IH) (simp add: A Cons)
      show ?thesis
      proof (cases "format_expr_inner env [] (Some a) rtable")
        case (Inl err)
        then show ?thesis using ha [of str] by (simp add: A Cons list_length_def)
      next
        case (Inr t)
        then have "format_expr_inner env str (Some a) rtable = Inr (str @ t)"
          using ha [of str] by simp
        then show ?thesis
          using Inr hb [of "str @ t @ '' '' @ name @ '' ''"] hb [of "t @ '' '' @ name @ '' ''"]
          by (cases "format_expr_inner env [] (Some b) rtable")
             (simp_all add: A Cons name_def list_length_def)
      qed
    qed
  qed
next
  case (FuncExpr funcid args)
  define name where "name = (case get_func_name env funcid of Some n \<Rightarrow> n | None \<Rightarrow> ''(invalid function)'')"
  have "format_args env s args rtable = map_sum id ((@) s) (format_args env [] args rtable)" for s
    by (rule format_args_append_aux) (rule FuncExpr.IH)
  from this [of "str @ name @ ''(''"] this [of "name @ ''(''"]
  show ?case
    by (cases "format_args env [] args rtable") (simp_all add: name_def)
next
  case Other
  show ?case by simp
qed

lemma format_args_append:
  "format_args env str l rtable = map_sum id ((@) str) (format_args env [] l rtable)"
  by (rule format_args_append_aux) (rule format_expr_inner_append)

section \<open>When a call returns\<close>

text \<open>
  A call returns exactly when the lookups it performs succeed; which buffer it appends
  to makes no difference.
\<close>

lemma isl_format_expr_inner:
  "isl (format_expr_inner env str (Some e) rtable) = isl (format_expr_inner env [] (Some e) rtable)"
  using format_expr_inner_append [of env str e rtable] by (simp add: isl_map_sum)

lemma format_args_returns:
  "(\<not> isl (format_args env str l rtable))
     = list_all (\<lambda>a. \<not> isl (format_expr_inner env [] (Some a) rtable)) l"
proof (induction l arbitrary: str)
  case Nil
  show ?case by simp
next
  case (Cons a l)
  show ?case
  proof (cases "format_expr_inner env str (Some a) rtable")
    case (Inl err)
    then have "isl (format_expr_inner env [] (Some a) rtable)"
      using isl_format_expr_inner [of env str a rtable] by simp
    with Inl show ?thesis by simp
  next
    case (Inr str1)
    then have "\<not> isl (format_expr_inner env [] (Some a) rtable)"
      using isl_format_expr_inner [of env str a rtable] by simp
    moreover have "(\<not> isl (format_args env (if l \<noteq> [] then str1 @ '','' else str1) l rtable))
        = list_all (\<lambda>a. \<not> isl (format_expr_inner env [] (Some a) rtable)) l"
      by (rule Cons.IH)
    ultimately show ?thesis using Inr by simp
  qed
qed

lemma format_expr_inner_returns:
  "(\<not> isl (format_expr_inner env str (Some e) rtable)) = lookups_succeed env rtable e"
proof (induction e arbitrary: str)
  case (Var varno varattno)
  show ?case by (simp split: option.splits sum.splits)
next
  case (Const constisnull consttype constvalue)
  show ?case by (simp split: sum.splits prod.splits)
next
  case (OpExpr opno args)
  show ?case
  proof (cases args)
    case Nil
    then show ?thesis by (simp add: list_length_def)
  next
    case (Cons a as)
    note A = this
    have ha: "(\<not> isl (format_expr_inner env s (Some a) rtable)) = lookups_succeed env rtable a" for s
      by (rule OpExpr.IH) (simp add: A)
    show ?thesis
    proof (cases as)
      case Nil
      with A ha show ?thesis by (simp add: list_length_def)
    next
      case (Cons b bs)
      have hb: "(\<not> isl (format_expr_inner env s (Some b) rtable)) = lookups_succeed env rtable b" for s
        by (rule OpExpr.IH) (simp add: A Cons)
      show ?thesis
      proof (cases "format_expr_inner env str (Some a) rtable")
        case (Inl err)
        with ha [of str] show ?thesis by (simp add: A Cons list_length_def)
      next
        case (Inr str1)
        with ha [of str] hb show ?thesis by (simp add: A Cons list_length_def)
      qed
    qed
  qed
next
  case (FuncExpr funcid args)
  have "list_all (\<lambda>a. \<not> isl (format_expr_inner env [] (Some a) rtable)) args
          = list_all (lookups_succeed env rtable) args"
    using FuncExpr.IH by (simp add: list_all_iff)
  then show ?case
    using format_args_returns [of env _ args rtable]
    by (simp split: sum.splits) (metis isl_def sum.disc(1) sum.disc(2))
next
  case Other
  show ?case by simp
qed

section \<open>The text a node emits\<close>

lemma format_expr_inner_text:
  "format_expr_inner env [] (Some e) rtable = Inr t \<Longrightarrow>
   format_expr_inner env str (Some e) rtable = Inr (str @ t)"
  using format_expr_inner_append [of env str e rtable] by simp

lemma format_args_text:
  "list_all2 (\<lambda>a t. format_expr_inner env [] (Some a) rtable = Inr t) args ts \<Longrightarrow>
   format_args env str args rtable = Inr (str @ comma_separated ts)"
proof (induction args ts arbitrary: str rule: list_all2_induct)
  case Nil
  show ?case by simp
next
  case (Cons a args t ts)
  have first: "format_expr_inner env str (Some a) rtable = Inr (str @ t)"
    using Cons.hyps(1) by (rule format_expr_inner_text)
  show ?case
  proof (cases args)
    case Nil
    with Cons.hyps(2) have "ts = []" by simp
    with Nil first show ?thesis by simp
  next
    case (Cons a' args')
    with Cons.hyps(2) obtain t' ts' where ts: "ts = t' # ts'"
      by (cases ts) auto
    have "format_args env (str @ t @ '','') args rtable = Inr ((str @ t @ '','') @ comma_separated ts)"
      by (rule Cons.IH)
    with first Cons ts show ?thesis by simp
  qed
qed

section \<open>Claims\<close>

subsection \<open>Column references\<close>

theorem out_of_range_sibling_counterexample:
  "pg_hacker_helper_format_expr sample_backend
     (Some (OpExpr 551 [Var 7 1, Const True 16 0])) sample_rtable = Inr (Some '' + NULL'')"
  by (simp add: pg_hacker_helper_format_expr_def sample_backend_def sample_rtable_def
        list_length_def)

text \<open>
  C1, as the code has it: a \<open>Var\<close> whose \<open>varno\<close> is no special slot and, read as an
  \<open>int\<close>, lies outside \<open>1 .. list_length(rtable)\<close> returns without a fault and leaves
  the buffer as it was, provided the cast to \<open>int\<close> keeps the value of \<open>varno\<close>: the
  field is a signed \<open>int\<close>, or an unsigned index below \<open>2^31\<close>. The \<open>return\<close> leaves
  only that invocation: the enclosing operator still appends its name and formats
  the right operand, and the enclosing argument loop still appends the comma and
  formats the remaining arguments.
\<close>

theorem out_of_range_var_skips_only_itself:
  assumes "varno \<noteq> INNER_VAR env" "varno \<noteq> OUTER_VAR env" "varno \<noteq> INDEX_VAR env"
    and "\<not> (1 \<le> sint varno \<and> sint varno \<le> int (length rtable))"
    and "varno_signed env \<or> 0 \<le> sint varno"
  shows "format_expr_inner env str (Some (Var varno varattno)) rtable = Inr str
       \<and> format_expr_inner env str (Some (OpExpr opno [Var varno varattno, b])) rtable
           = format_expr_inner env
               (str @ '' '' @
                (case get_opname env opno of Some name \<Rightarrow> name | None \<Rightarrow> ''(invalid operator)'')
                @ '' '')
               (Some b) rtable
       \<and> format_args env str (Var varno varattno # b # l) rtable
           = format_args env (str @ '','') (b # l) rtable"
proof -
  have guard: "\<not> ((if varno_signed env then sint varno > 0 else uint varno > 0)
                  \<and> sint varno \<le> list_length rtable)"
    using assms(4,5) by (rule guard_fails)
  have skip: "format_expr_inner env s (Some (Var varno varattno)) rtable = Inr s" for s
    using assms(1-3) guard by simp
  show ?thesis
    using skip [of str] by (simp add: list_length_def)
qed

theorem out_of_range_var_skips_only_itself_witness:
  "format_expr_inner sample_backend ''x'' (Some (Var 3 1)) sample_rtable = Inr ''x''
   \<and> format_expr_inner sample_backend ''x'' (Some (OpExpr 91 [Var 3 1, Var 1 2])) sample_rtable
       = Inr ''x = t.b''
   \<and> format_args sample_backend ''x'' [Var 3 1, Var 1 2, Other] sample_rtable
       = Inr ''x,t.b,unknown expr''
   \<and> format_expr_inner sample_backend_index ''x'' (Some (OpExpr 91 [Var 0 1, Var 1 2]))
         sample_rtable
       = Inr ''x = t.b''"
  using out_of_range_var_skips_only_itself
          [of 3 sample_backend sample_rtable "''x''" 1 91 "Var 1 2" "[Other]"]
        out_of_range_var_skips_only_itself
          [of 0 sample_backend_index sample_rtable "''x''" 1 91 "Var 1 2" "[Other]"]
  by (simp add: sample_backend_def sample_backend_index_def sample_rtable_def
        rt_fetch_def list_nth_def list_length_def)

text \<open>
  C4: a \<open>Var\<close> whose \<open>varno\<close> is no special slot and satisfies
  \<open>1 \<le> varno \<le> list_length(rtable)\<close> appends the alias name of the \<open>varno\<close>-th range
  table entry, a dot, and the attribute name that \<open>get_rte_attribute_name\<close> returns
  for \<open>varattno\<close>; when that lookup reports an error instead, the error leaves the call.
  The bounds are on \<open>varno\<close> read as an \<open>int\<close>; within them the signed and the
  unsigned reading of the field agree.
\<close>

theorem column_ref_in_range:
  assumes "varno \<noteq> INNER_VAR env" "varno \<noteq> OUTER_VAR env" "varno \<noteq> INDEX_VAR env"
    and "1 \<le> sint varno" "sint varno \<le> int (length rtable)"
  shows "format_expr_inner env str (Some (Var varno varattno)) rtable =
           (case get_rte_attribute_name env (rtable ! nat (sint varno - 1)) varattno of
              Inl err \<Rightarrow> Inl err
            | Inr attname \<Rightarrow>
                Inr (str @ aliasname (eref (rtable ! nat (sint varno - 1))) @ ''.'' @ attname))"
  using assms(1-3) guard_passes [OF assms(4,5), of env] rt_fetch_in_range [OF assms(4,5)]
  by simp

theorem column_ref_in_range_witness:
  "format_expr_inner sample_backend ''x = '' (Some (Var 2 1)) sample_rtable = Inr ''x = u.x''"
  using column_ref_in_range [of 2 sample_backend sample_rtable "''x = ''" 1]
  by (simp add: sample_backend_def sample_rtable_def)

text \<open>
  C8: with the three special slots distinct (they are the labels of one \<open>switch\<close>), a
  \<open>Var\<close> whose \<open>varno\<close> is \<open>INNER_VAR\<close>, \<open>OUTER_VAR\<close> or \<open>INDEX_VAR\<close> appends exactly
  \<open>INNER.?\<close>, \<open>OUTER.?\<close> or \<open>INDEX.?\<close>, for every range table and every attribute
  number.
\<close>

theorem special_slot_text:
  assumes "distinct [INNER_VAR env, OUTER_VAR env, INDEX_VAR env]"
  shows "format_expr_inner env str (Some (Var (INNER_VAR env) varattno)) rtable = Inr (str @ ''INNER.?'')
       \<and> format_expr_inner env str (Some (Var (OUTER_VAR env) varattno)) rtable = Inr (str @ ''OUTER.?'')
       \<and> format_expr_inner env str (Some (Var (INDEX_VAR env) varattno)) rtable = Inr (str @ ''INDEX.?'')"
  using assms by auto

theorem special_slot_text_witness:
  "format_expr_inner sample_backend [] (Some (Var (- 1) 4)) [] = Inr ''INNER.?''
   \<and> format_expr_inner sample_backend [] (Some (Var (- 2) 4)) [] = Inr ''OUTER.?''
   \<and> format_expr_inner sample_backend [] (Some (Var (- 3) 4)) [] = Inr ''INDEX.?''"
  using special_slot_text [of sample_backend "[]" 4 "[]"]
  by (simp add: sample_backend_def)

subsection \<open>Constants\<close>

text \<open>
  C7: a \<open>Const\<close> node whose \<open>constisnull\<close> is set appends exactly \<open>NULL\<close>, for every
  type id, every value, every backend and every range table.
\<close>

theorem const_null_emits_NULL:
  "format_expr_inner env str (Some (Const True consttype constvalue)) rtable = Inr (str @ ''NULL'')"
  by simp

subsection \<open>Operator applications\<close>

text \<open>
  C5: for an \<open>OpExpr\<close> with the two operands \<open>a\<close> and \<open>b\<close>, whose texts are \<open>ta\<close> and
  \<open>tb\<close>, the text appended is \<open>ta\<close>, one space, the operator's name, one space, \<open>tb\<close>;
  when \<open>get_opname\<close> finds no name, \<open>(invalid operator)\<close> stands in its place between
  the same two spaces.
\<close>

theorem binary_operator_text:
  assumes "format_expr_inner env [] (Some a) rtable = Inr ta"
    and "format_expr_inner env [] (Some b) rtable = Inr tb"
  shows "(get_opname env opno = Some name \<longrightarrow>
            format_expr_inner env str (Some (OpExpr opno [a, b])) rtable
              = Inr (str @ ta @ '' '' @ name @ '' '' @ tb))
       \<and> (get_opname env opno = None \<longrightarrow>
            format_expr_inner env str (Some (OpExpr opno [a, b])) rtable
              = Inr (str @ ta @ '' '' @ ''(invalid operator)'' @ '' '' @ tb))"
  using format_expr_inner_text [OF assms(1), of str]
        format_expr_inner_text [OF assms(2), of "str @ ta @ '' '' @ name @ '' ''"]
        format_expr_inner_text [OF assms(2), of "str @ ta @ '' '' @ ''(invalid operator)'' @ '' ''"]
  by (simp add: list_length_def)

theorem binary_operator_text_witness:
  "format_expr_inner sample_backend [] (Some (OpExpr 551 [Var 1 1, Var 2 1])) sample_rtable
     = Inr ''t.a + u.x''
   \<and> format_expr_inner sample_backend [] (Some (OpExpr 7 [Var 1 1, Var 2 1])) sample_rtable
     = Inr ''t.a (invalid operator) u.x''"
proof -
  have a: "format_expr_inner sample_backend [] (Some (Var 1 1)) sample_rtable = Inr ''t.a''"
    by (simp add: sample_backend_def sample_rtable_def rt_fetch_def list_nth_def list_length_def)
  have b: "format_expr_inner sample_backend [] (Some (Var 2 1)) sample_rtable = Inr ''u.x''"
    by (simp add: sample_backend_def sample_rtable_def rt_fetch_def list_nth_def list_length_def)
  have plus: "get_opname sample_backend 551 = Some ''+''" and none: "get_opname sample_backend 7 = None"
    by (simp_all add: sample_backend_def)
  show ?thesis
    using binary_operator_text [OF a b, of 551 "''+''" "[]"] binary_operator_text [OF a b, of 7 "''+''" "[]"]
      plus none by simp
qed

text \<open>
  C9: for an \<open>OpExpr\<close> with the single operand \<open>a\<close>, whose text is \<open>ta\<close>, the text
  appended is the operator's name (or \<open>(invalid operator)\<close>), one space, then \<open>ta\<close>.
\<close>

theorem unary_operator_text:
  assumes "format_expr_inner env [] (Some a) rtable = Inr ta"
  shows "(get_opname env opno = Some name \<longrightarrow>
            format_expr_inner env str (Some (OpExpr opno [a])) rtable = Inr (str @ name @ '' '' @ ta))
       \<and> (get_opname env opno = None \<longrightarrow>
            format_expr_inner env str (Some (OpExpr opno [a])) rtable
              = Inr (str @ ''(invalid operator)'' @ '' '' @ ta))"
  using format_expr_inner_text [OF assms, of "str @ name @ '' ''"]
        format_expr_inner_text [OF assms, of "str @ ''(invalid operator)'' @ '' ''"]
  by (simp add: list_length_def)

theorem unary_operator_text_witness:
  "format_expr_inner sample_backend [] (Some (OpExpr 551 [Var 1 1])) sample_rtable = Inr ''+ t.a''
   \<and> format_expr_inner sample_backend [] (Some (OpExpr 7 [Var 1 1])) sample_rtable
     = Inr ''(invalid operator) t.a''"
proof -
  have a: "format_expr_inner sample_backend [] (Some (Var 1 1)) sample_rtable = Inr ''t.a''"
    by (simp add: sample_backend_def sample_rtable_def rt_fetch_def list_nth_def list_length_def)
  have plus: "get_opname sample_backend 551 = Some ''+''" and none: "get_opname sample_backend 7 = None"
    by (simp_all add: sample_backend_def)
  show ?thesis
    using unary_operator_text [OF a, of 551 "''+''" "[]"] unary_operator_text [OF a, of 7 "''+''" "[]"]
      plus none by simp
qed

text \<open>
  C10: for an \<open>OpExpr\<close> with more than two operands, the text appended is the infix form
  of the first two: the first operand's text, one space, the operator's name (or
  \<open>(invalid operator)\<close>), one space, the second operand's text. The operands after the
  second are not formatted and add nothing, whatever they are.
\<close>

theorem surplus_operands_ignored:
  assumes "2 < length args"
    and "format_expr_inner env [] (Some (args ! 0)) rtable = Inr ta"
    and "format_expr_inner env [] (Some (args ! 1)) rtable = Inr tb"
  shows "format_expr_inner env str (Some (OpExpr opno args)) rtable
           = Inr (str @ ta @ '' '' @
                  (case get_opname env opno of Some name \<Rightarrow> name | None \<Rightarrow> ''(invalid operator)'')
                  @ '' '' @ tb)"
proof -
  obtain a b c rest where args: "args = a # b # c # rest"
    using assms(1) by (cases args; cases "tl args"; cases "tl (tl args)") auto
  define name where "name = (case get_opname env opno of Some name \<Rightarrow> name | None \<Rightarrow> ''(invalid operator)'')"
  have a: "format_expr_inner env str (Some a) rtable = Inr (str @ ta)"
    using assms(2) args by (simp add: format_expr_inner_text)
  have b: "format_expr_inner env (str @ ta @ '' '' @ name @ '' '') (Some b) rtable
             = Inr ((str @ ta @ '' '' @ name @ '' '') @ tb)"
    using assms(3) args by (simp add: format_expr_inner_text)
  show ?thesis
    using a b by (simp add: args name_def list_length_def)
qed

theorem surplus_operands_ignored_witness:
  "format_expr_inner sample_backend [] (Some (OpExpr 91 [Var 1 1, Var 2 1, Var 1 9, OpExpr 0 []]))
     sample_rtable = Inr ''t.a = u.x''"
proof -
  have len: "2 < length [Var 1 1, Var 2 1, Var 1 9, OpExpr 0 []]"
    by simp
  have a: "format_expr_inner sample_backend []
             (Some ([Var 1 1, Var 2 1, Var 1 9, OpExpr 0 []] ! 0)) sample_rtable = Inr ''t.a''"
    by (simp add: sample_backend_def sample_rtable_def rt_fetch_def list_nth_def list_length_def)
  have b: "format_expr_inner sample_backend []
             (Some ([Var 1 1, Var 2 1, Var 1 9, OpExpr 0 []] ! 1)) sample_rtable = Inr ''u.x''"
    by (simp add: sample_backend_def sample_rtable_def rt_fetch_def list_nth_def list_length_def)
  have eq: "get_opname sample_backend 91 = Some ''=''"
    by (simp add: sample_backend_def)
  show ?thesis
    using surplus_operands_ignored [OF len a b, of "[]" 91] eq by simp
qed

subsection \<open>Function calls\<close>

text \<open>
  C6: for a \<open>FuncExpr\<close> whose arguments have the texts \<open>ts\<close>, in order, the text
  appended is the function's name (or \<open>(invalid function)\<close> when \<open>get_func_name\<close> finds
  none), an opening parenthesis, the texts joined by bare commas, and a closing
  parenthesis; with no arguments that is the name followed by \<open>()\<close>.
\<close>

theorem function_call_text:
  assumes "list_all2 (\<lambda>a t. format_expr_inner env [] (Some a) rtable = Inr t) args ts"
  shows "(get_func_name env funcid = Some name \<longrightarrow>
            format_expr_inner env str (Some (FuncExpr funcid args)) rtable
              = Inr (str @ name @ ''('' @ comma_separated ts @ '')''))
       \<and> (get_func_name env funcid = None \<longrightarrow>
            format_expr_inner env str (Some (FuncExpr funcid args)) rtable
              = Inr (str @ ''(invalid function)'' @ ''('' @ comma_separated ts @ '')''))"
  using format_args_text [OF assms, of "str @ name @ ''(''"]
        format_args_text [OF assms, of "str @ ''(invalid function)'' @ ''(''"]
  by simp

theorem function_call_text_witness:
  "format_expr_inner sample_backend [] (Some (FuncExpr 1397 [Var 1 1, Var 2 1])) sample_rtable
     = Inr ''abs(t.a,u.x)''
   \<and> format_expr_inner sample_backend [] (Some (FuncExpr 3 [Var 1 1, Var 2 1])) sample_rtable
     = Inr ''(invalid function)(t.a,u.x)''
   \<and> format_expr_inner sample_backend [] (Some (FuncExpr 1397 [])) sample_rtable = Inr ''abs()''"
proof -
  have args: "list_all2 (\<lambda>a t. format_expr_inner sample_backend [] (Some a) sample_rtable = Inr t)
                [Var 1 1, Var 2 1] [''t.a'', ''u.x'']"
    by (simp add: sample_backend_def sample_rtable_def rt_fetch_def list_nth_def list_length_def)
  have none: "list_all2 (\<lambda>a t. format_expr_inner sample_backend [] (Some a) sample_rtable = Inr t)
                [] []"
    by simp
  have abs: "get_func_name sample_backend 1397 = Some ''abs''"
    and missing: "get_func_name sample_backend 3 = None"
    by (simp_all add: sample_backend_def)
  show ?thesis
    using function_call_text [OF args, of 1397 "''abs''" "[]"]
          function_call_text [OF args, of 3 "''abs''" "[]"]
          function_call_text [OF none, of 1397 "''abs''" "[]"]
          abs missing
    by simp
qed

subsection \<open>The call as a whole\<close>

theorem bad_attribute_number_counterexample:
  "pg_hacker_helper_format_expr sample_backend (Some (Var 1 5)) sample_rtable
     = Inl (BackendError ''invalid attnum for rangetable entry'')
   \<and> pg_hacker_helper_format_expr sample_backend (Some (OpExpr 551 [])) sample_rtable
     = Inl NullPointerDereference"
  by (simp add: pg_hacker_helper_format_expr_def sample_backend_def sample_rtable_def rt_fetch_def list_nth_def list_length_def)

text \<open>
  C2, as the code has it: a call on a non-\<open>NULL\<close> expression returns text exactly when
  every lookup it performs succeeds: the range table entry and the attribute name of
  each \<open>Var\<close> that is no special slot and passes the guard, the output conversion of
  each \<open>Const\<close> that is not null, and a first operand for each \<open>OpExpr\<close>. An operator
  or function id without a name, a \<open>Var\<close> that the guard turns away and a node of
  another kind never stop the call. When a lookup reports an error, or an \<open>OpExpr\<close>
  has no operand, the call does not return.
\<close>

theorem returns_text_iff_lookups_succeed:
  "(\<exists>text. pg_hacker_helper_format_expr env (Some e) rtable = Inr (Some text))
     = lookups_succeed env rtable e"
  using format_expr_inner_returns [of env "[]" e rtable]
  by (cases "format_expr_inner env [] (Some e) rtable")
     (simp_all add: pg_hacker_helper_format_expr_def)

theorem returns_text_iff_lookups_succeed_witness:
  "lookups_succeed sample_backend sample_rtable
     (FuncExpr 3 [OpExpr 7 [Var 9 1, Other], Var 1 0, Const False 16 1])
   \<and> (\<exists>text. pg_hacker_helper_format_expr sample_backend
        (Some (FuncExpr 3 [OpExpr 7 [Var 9 1, Other], Var 1 0, Const False 16 1])) sample_rtable
          = Inr (Some text))"
proof -
  have ok: "lookups_succeed sample_backend sample_rtable
              (FuncExpr 3 [OpExpr 7 [Var 9 1, Other], Var 1 0, Const False 16 1])"
    by (simp add: sample_backend_def sample_rtable_def rt_fetch_def list_nth_def list_length_def)
  show ?thesis
    using ok returns_text_iff_lookups_succeed
                [of sample_backend "FuncExpr 3 [OpExpr 7 [Var 9 1, Other], Var 1 0, Const False 16 1]"
                    sample_rtable]
    by simp
qed

theorem missing_type_counterexample:
  "pg_hacker_helper_format_expr sample_backend (Some (Const False 0 0)) sample_rtable
     = Inl (BackendError ''cache lookup failed for type'')"
  by (simp add: pg_hacker_helper_format_expr_def sample_backend_def)

text \<open>
  C3, as the code has it: for a \<open>NULL\<close> expression the call returns \<open>NULL\<close>, without any
  lookup; for an expression that is not \<open>NULL\<close> it never returns \<open>NULL\<close>, and it returns
  a string whenever the lookups it performs succeed. So among the calls that return,
  the result is \<open>NULL\<close> exactly for the \<open>NULL\<close> expression.
\<close>

theorem format_expr_null_iff:
  "pg_hacker_helper_format_expr env None rtable = Inr None
   \<and> pg_hacker_helper_format_expr env (Some e) rtable \<noteq> Inr None
   \<and> ((pg_hacker_helper_format_expr env node rtable = Inr None) = (node = None))
   \<and> (lookups_succeed env rtable e \<longrightarrow>
        (\<exists>text. pg_hacker_helper_format_expr env (Some e) rtable = Inr (Some text)))"
proof -
  have none: "pg_hacker_helper_format_expr env None rtable = Inr None"
    by (simp add: pg_hacker_helper_format_expr_def)
  have some: "pg_hacker_helper_format_expr env (Some x) rtable \<noteq> Inr None" for x
    by (simp add: pg_hacker_helper_format_expr_def split: sum.splits)
  have iff: "(pg_hacker_helper_format_expr env node rtable = Inr None) = (node = None)"
    using none some by (cases node) simp_all
  have returns: "\<exists>text. pg_hacker_helper_format_expr env (Some e) rtable = Inr (Some text)"
    if "lookups_succeed env rtable e"
    using that format_expr_inner_returns [of env "[]" e rtable]
    by (cases "format_expr_inner env [] (Some e) rtable")
       (simp_all add: pg_hacker_helper_format_expr_def)
  show ?thesis
    using none some [of e] iff returns by simp
qed

theorem format_expr_null_iff_witness:
  "lookups_succeed sample_backend sample_rtable (Var 9 1)
   \<and> pg_hacker_helper_format_expr sample_backend (Some (Var 9 1)) sample_rtable = Inr (Some [])
   \<and> pg_hacker_helper_format_expr sample_backend None sample_rtable = Inr None"
proof -
  have ok: "lookups_succeed sample_backend sample_rtable (Var 9 1)"
    by (simp add: sample_backend_def sample_rtable_def list_length_def)
  show ?thesis
    using ok format_expr_null_iff [of sample_backend sample_rtable "Var 9 1" None]
    by (simp add: pg_hacker_helper_format_expr_def sample_backend_def sample_rtable_def
          list_length_def)
qed

end
